theory Spec2Isabelle
  imports Main
begin

section \<open>Data model of \<open>applications.py\<close>\<close>

text \<open>
  The module defines one class, \<open>FastAPI\<close>, that stores configuration and ordered
  collections and hands them to the schema generator \<open>fastapi.openapi.utils.get_openapi\<close>.
  Values the class only stores (route descriptors apart) are Python objects of type \<open>Any\<close>;
  \<open>PObj\<close> names an object the class never looks into (a class, a callable, a dependency).
\<close>

datatype pyval =
    PNone
  | PBool bool
  | PInt int
  | PStr string
  | PList "pyval list"
  | PDict "(string \<times> pyval) list"
  | PObj string

text \<open>\<open>Dict[str, Any]\<close>: the entries in insertion order.\<close>

type_synonym dict = "(string \<times> pyval) list"

text \<open>
  A parameter annotated \<open>Sequence[...]\<close> accepts a list as well as a tuple; only the
  list has \<open>append\<close>.
\<close>

datatype 'a pyseq = PyList "'a list" | PyTuple "'a list"

text \<open>\<open>Middleware(middleware_class, **options)\<close>: the class and its keyword options.\<close>

type_synonym middleware_entry = "pyval \<times> dict"

datatype error = AttributeError | Raised string

text \<open>The fields that \<open>__init__\<close> assigns (lines 50 to 70), under their own names.\<close>

record 'r FastAPI =
  debug :: bool
  routes :: "'r list"
  title :: string
  description :: string
  version :: string
  openapi_url :: "string option"
  openapi_tags :: "dict list option"
  servers :: "dict list option"
  docs_url :: "string option"
  redoc_url :: "string option"
  swagger_ui_oauth2_redirect_url :: "string option"
  swagger_ui_init_oauth :: "dict option"
  middleware :: "middleware_entry pyseq"
  exception_handlers :: "(pyval \<times> pyval) list"
  on_startup :: "pyval pyseq"
  on_shutdown :: "pyval pyseq"
  default_response_class :: pyval
  dependencies :: "pyval pyseq"
  openapi_prefix :: string
  openapi_schema :: "dict option"
  openapi_schema_cache :: "dict option"

text \<open>The keyword arguments of \<open>__init__\<close> (lines 30 to 48).\<close>

record 'r init_args =
  arg_debug :: bool
  arg_routes :: "'r list option"
  arg_title :: string
  arg_description :: string
  arg_version :: string
  arg_openapi_url :: "string option"
  arg_openapi_tags :: "dict list option"
  arg_servers :: "dict list option"
  arg_docs_url :: "string option"
  arg_redoc_url :: "string option"
  arg_swagger_ui_oauth2_redirect_url :: "string option"
  arg_swagger_ui_init_oauth :: "dict option"
  arg_middleware :: "middleware_entry pyseq option"
  arg_exception_handlers :: "(pyval \<times> pyval) list option"
  arg_on_startup :: "pyval pyseq option"
  arg_on_shutdown :: "pyval pyseq option"
  arg_default_response_class :: pyval
  arg_dependencies :: "pyval pyseq option"
  arg_openapi_prefix :: string

text \<open>The declared defaults: what a call \<open>FastAPI()\<close> passes.\<close>

definition no_arguments :: "'r init_args" where
  "no_arguments =
     \<lparr> arg_debug = False,
       arg_routes = None,
       arg_title = ''FastAPI'',
       arg_description = '''',
       arg_version = ''0.1.0'',
       arg_openapi_url = Some ''/openapi.json'',
       arg_openapi_tags = None,
       arg_servers = None,
       arg_docs_url = Some ''/docs'',
       arg_redoc_url = Some ''/redoc'',
       arg_swagger_ui_oauth2_redirect_url = Some ''/docs/oauth2-redirect'',
       arg_swagger_ui_init_oauth = None,
       arg_middleware = None,
       arg_exception_handlers = None,
       arg_on_startup = None,
       arg_on_shutdown = None,
       arg_default_response_class = PObj ''JSONResponse'',
       arg_dependencies = None,
       arg_openapi_prefix = '''' \<rparr>"

text \<open>The one attribute of \<open>routing.APIRouter\<close> that the class reads.\<close>

record 'r APIRouter =
  router_routes :: "'r list"

text \<open>The keyword arguments that \<open>get_openapi\<close> passes to the generator (lines 113 to 118).\<close>

record 'r gen_args =
  kw_title :: string
  kw_version :: string
  kw_description :: string
  kw_routes :: "'r list"
  kw_tags :: "dict list option"
  kw_servers :: "dict list option"

text \<open>
  The generator \<open>fastapi.openapi.utils.get_openapi\<close> is imported, not defined here: the
  model takes it as a parameter, a function of its keyword arguments that returns a schema
  document or raises.
\<close>

type_synonym 'r generator = "'r gen_args \<Rightarrow> error + dict"

text \<open>
  What a call of \<open>get_openapi\<close> or \<open>openapi\<close> does: the value returned or the exception
  raised, the calls of the generator it made, in order, and the object afterwards.
\<close>

record 'r schema_call =
  returned :: "error + dict"
  gen_calls :: "'r gen_args list"
  after :: "'r FastAPI"

section \<open>Truth values of Python objects\<close>

text \<open>
  A string, a list and a dict are false exactly when empty, and \<open>None\<close> is false;
  \<open>x or y\<close> is \<open>x\<close> when \<open>x\<close> is true and \<open>y\<close> otherwise.
\<close>

fun truthy :: "'a list \<Rightarrow> bool" where
  "truthy [] = False"
| "truthy (x # xs) = True"

fun truthy_opt :: "'a list option \<Rightarrow> bool" where
  "truthy_opt None = False"
| "truthy_opt (Some xs) = truthy xs"

fun truthy_seq :: "'a pyseq option \<Rightarrow> bool" where
  "truthy_seq None = False"
| "truthy_seq (Some (PyList xs)) = truthy xs"
| "truthy_seq (Some (PyTuple xs)) = truthy xs"

text \<open>\<open>x or y\<close> for an optional \<open>x\<close> and a \<open>y\<close> that is not optional.\<close>

fun or_else :: "'a list option \<Rightarrow> 'a list \<Rightarrow> 'a list" where
  "or_else None y = y"
| "or_else (Some xs) y = (if truthy xs then xs else y)"

text \<open>\<open>x or y\<close> where \<open>y\<close> may be \<open>None\<close> too.\<close>

definition or_opt :: "'a list option \<Rightarrow> 'a list option \<Rightarrow> 'a list option" where
  "or_opt x y = (if truthy_opt x then x else y)"

fun or_seq :: "'a pyseq option \<Rightarrow> 'a pyseq \<Rightarrow> 'a pyseq" where
  "or_seq None y = y"
| "or_seq (Some s) y = (if truthy_seq (Some s) then s else y)"

section \<open>The methods\<close>

text \<open>\<open>__init__\<close>, lines 50 to 70.\<close>

definition init :: "'r init_args \<Rightarrow> 'r FastAPI" where
  "init a =
     \<lparr> debug = arg_debug a,
       routes = or_else (arg_routes a) [],
       title = arg_title a,
       description = arg_description a,
       version = arg_version a,
       openapi_url = arg_openapi_url a,
       openapi_tags = arg_openapi_tags a,
       servers = arg_servers a,
       docs_url = arg_docs_url a,
       redoc_url = arg_redoc_url a,
       swagger_ui_oauth2_redirect_url = arg_swagger_ui_oauth2_redirect_url a,
       swagger_ui_init_oauth = arg_swagger_ui_init_oauth a,
       middleware = or_seq (arg_middleware a) (PyList []),
       exception_handlers = or_else (arg_exception_handlers a) [],
       on_startup = or_seq (arg_on_startup a) (PyList []),
       on_shutdown = or_seq (arg_on_shutdown a) (PyList []),
       default_response_class = arg_default_response_class a,
       dependencies = or_seq (arg_dependencies a) (PyList []),
       openapi_prefix = arg_openapi_prefix a,
       openapi_schema = None,
       openapi_schema_cache = None \<rparr>"

text \<open>
  \<open>add_middleware\<close>, line 77. \<open>self.middleware\<close> is whatever \<open>__init__\<close> was given; a
  tuple has no \<open>append\<close>, and the attribute lookup raises.
\<close>

definition add_middleware ::
  "'r FastAPI \<Rightarrow> pyval \<Rightarrow> dict \<Rightarrow> (error + unit) \<times> 'r FastAPI" where
  "add_middleware self middleware_class options =
     (case middleware self of
        PyList ms \<Rightarrow> (Inr (), self\<lparr>middleware := PyList (ms @ [(middleware_class, options)])\<rparr>)
      | PyTuple ms \<Rightarrow> (Inl AttributeError, self))"

text \<open>\<open>add_route\<close>, line 84.\<close>

definition add_route :: "'r FastAPI \<Rightarrow> string \<Rightarrow> 'r \<Rightarrow> (error + unit) \<times> 'r FastAPI" where
  "add_route self path route = (Inr (), self\<lparr>routes := routes self @ [route]\<rparr>)"

text \<open>The keyword options of \<open>include_router\<close> (lines 90 to 96).\<close>

record include_options =
  opt_prefix :: string
  opt_tags :: "string list option"
  opt_dependencies :: "pyval pyseq option"
  opt_responses :: "(pyval \<times> dict) list option"
  opt_default_response_class :: "pyval option"
  opt_callbacks :: "pyval list option"
  opt_include_in_schema :: bool

text \<open>\<open>include_router\<close>, line 98.\<close>

definition include_router ::
  "'r FastAPI \<Rightarrow> 'r APIRouter \<Rightarrow> include_options \<Rightarrow> (error + unit) \<times> 'r FastAPI" where
  "include_router self router opts =
     (Inr (), self\<lparr>routes := routes self @ router_routes router\<rparr>)"

text \<open>The arguments of the generator call, lines 113 to 118.\<close>

definition resolved_args ::
  "'r FastAPI \<Rightarrow> string option \<Rightarrow> string option \<Rightarrow> string option \<Rightarrow> 'r list option \<Rightarrow>
   dict list option \<Rightarrow> dict list option \<Rightarrow> 'r gen_args" where
  "resolved_args self title_kw version_kw description_kw routes_kw tags_kw servers_kw =
     \<lparr> kw_title = or_else title_kw (title self),
       kw_version = or_else version_kw (version self),
       kw_description = or_else description_kw (description self),
       kw_routes = or_else routes_kw (routes self),
       kw_tags = or_opt tags_kw (openapi_tags self),
       kw_servers = or_opt servers_kw (servers self) \<rparr>"

text \<open>
  Lines 112 to 121: call the generator; when it returns, store the schema in both slots
  and return it; when it raises, nothing has been assigned.
\<close>

definition generate :: "'r generator \<Rightarrow> 'r FastAPI \<Rightarrow> 'r gen_args \<Rightarrow> 'r schema_call" where
  "generate gen self args =
     (case gen args of
        Inl e \<Rightarrow> \<lparr> returned = Inl e, gen_calls = [args], after = self \<rparr>
      | Inr schema \<Rightarrow>
          \<lparr> returned = Inr schema, gen_calls = [args],
            after = self\<lparr>openapi_schema := Some schema, openapi_schema_cache := Some schema\<rparr> \<rparr>)"

text \<open>\<open>get_openapi\<close>, lines 110 to 121.\<close>

definition get_openapi ::
  "'r generator \<Rightarrow> 'r FastAPI \<Rightarrow> string option \<Rightarrow> string option \<Rightarrow> string option \<Rightarrow>
   'r list option \<Rightarrow> dict list option \<Rightarrow> dict list option \<Rightarrow> 'r schema_call" where
  "get_openapi gen self title_kw version_kw description_kw routes_kw tags_kw servers_kw =
     (case openapi_schema_cache self of
        Some cached \<Rightarrow>
          if truthy cached then \<lparr> returned = Inr cached, gen_calls = [], after = self \<rparr>
          else generate gen self
                 (resolved_args self title_kw version_kw description_kw routes_kw tags_kw servers_kw)
      | None \<Rightarrow>
          generate gen self
            (resolved_args self title_kw version_kw description_kw routes_kw tags_kw servers_kw))"

text \<open>
  Line 125: \<open>self.openapi_schema = self.get_openapi()\<close>, then line 126. An exception of the
  call leaves before the assignment.
\<close>

definition fetch :: "'r generator \<Rightarrow> 'r FastAPI \<Rightarrow> 'r schema_call" where
  "fetch gen self =
     (let r = get_openapi gen self None None None None None None in
      case returned r of
        Inl e \<Rightarrow> r
      | Inr schema \<Rightarrow> r\<lparr>after := (after r)\<lparr>openapi_schema := Some schema\<rparr>\<rparr>)"

text \<open>\<open>openapi\<close>, lines 124 to 126.\<close>

definition openapi :: "'r generator \<Rightarrow> 'r FastAPI \<Rightarrow> 'r schema_call" where
  "openapi gen self =
     (case openapi_schema self of
        Some schema \<Rightarrow>
          if truthy schema then \<lparr> returned = Inr schema, gen_calls = [], after = self \<rparr>
          else fetch gen self
      | None \<Rightarrow> fetch gen self)"

text \<open>
  The methods \<open>setup\<close>, \<open>mount\<close> and \<open>host\<close>, lines 128 to 138: each body is \<open>pass\<close>.
  (\<open>setup\<close> is a keyword of the theory language, hence \<open>setup_app\<close>.)
\<close>

definition setup_app :: "'r FastAPI \<Rightarrow> (error + unit) \<times> 'r FastAPI" where
  "setup_app self = (Inr (), self)"

definition mount :: "'r FastAPI \<Rightarrow> string \<Rightarrow> pyval \<Rightarrow> string option \<Rightarrow> (error + unit) \<times> 'r FastAPI" where
  "mount self path app name = (Inr (), self)"

definition host :: "'r FastAPI \<Rightarrow> string \<Rightarrow> int \<Rightarrow> dict \<Rightarrow> (error + unit) \<times> 'r FastAPI" where
  "host self host_name port kwargs = (Inr (), self)"

section \<open>Sequences of calls\<close>

text \<open>A call of one of the public methods, with its arguments.\<close>

datatype 'r call =
    AddMiddleware pyval dict
  | AddRoute string 'r
  | IncludeRouter "'r APIRouter" include_options
  | GetOpenapi "string option" "string option" "string option" "'r list option"
      "dict list option" "dict list option"
  | Openapi
  | Setup
  | Mount string pyval "string option"
  | Host string int dict

text \<open>The object after one call, whether the call returned or raised.\<close>

fun state_after :: "'r generator \<Rightarrow> 'r FastAPI \<Rightarrow> 'r call \<Rightarrow> 'r FastAPI" where
  "state_after gen self (AddMiddleware middleware_class options) =
     snd (add_middleware self middleware_class options)"
| "state_after gen self (AddRoute path route) = snd (add_route self path route)"
| "state_after gen self (IncludeRouter router opts) = snd (include_router self router opts)"
| "state_after gen self (GetOpenapi t v d rs tg sv) = after (get_openapi gen self t v d rs tg sv)"
| "state_after gen self Openapi = after (openapi gen self)"
| "state_after gen self Setup = snd (setup_app self)"
| "state_after gen self (Mount path app name) = snd (mount self path app name)"
| "state_after gen self (Host host_name port kwargs) = snd (host self host_name port kwargs)"

text \<open>The object after a sequence of calls, made in order.\<close>

fun run :: "'r generator \<Rightarrow> 'r FastAPI \<Rightarrow> 'r call list \<Rightarrow> 'r FastAPI" where
  "run gen self [] = self"
| "run gen self (c # cs) = run gen (state_after gen self c) cs"

text \<open>A sequence of \<open>add_route\<close> calls, each given as its \<open>(path, route)\<close> arguments.\<close>

fun add_routes :: "'r FastAPI \<Rightarrow> (string \<times> 'r) list \<Rightarrow> 'r FastAPI" where
  "add_routes self [] = self"
| "add_routes self ((path, route) # calls) = add_routes (snd (add_route self path route)) calls"

text \<open>
  The object holds the schema \<open>c\<close>: both slots, which lines 112 and 120 assign together,
  contain it.
\<close>

definition holds_schema :: "'r FastAPI \<Rightarrow> dict \<Rightarrow> bool" where
  "holds_schema self c \<longleftrightarrow> openapi_schema self = Some c \<and> openapi_schema_cache self = Some c"

section \<open>Generators\<close>

text \<open>
  A generator that always returns, and whose document has the title it was given under
  the top-level key \<open>title\<close>.
\<close>

definition records_title :: "'r generator \<Rightarrow> bool" where
  "records_title gen \<longleftrightarrow>
     (\<forall>a. \<exists>schema. gen a = Inr schema \<and> map_of schema ''title'' = Some (PStr (kw_title a)))"

text \<open>Two concrete generators, to run the methods on.\<close>

definition titled_generator :: "string generator" where
  "titled_generator a =
     Inr [(''title'', PStr (kw_title a)), (''version'', PStr (kw_version a)),
          (''paths'', PList (map PStr (kw_routes a)))]"

definition empty_unless_B :: "string generator" where
  "empty_unless_B a = Inr (if kw_title a = ''B'' then [(''title'', PStr ''B'')] else [])"

text \<open>The application after \<open>FastAPI().get_openapi()\<close> with the second of them.\<close>

definition app_with_empty_schema :: "string FastAPI" where
  "app_with_empty_schema =
     after (get_openapi empty_unless_B (init no_arguments) None None None None None None)"

section \<open>Concrete applications\<close>

text \<open>The arguments that \<open>FastAPI().get_openapi()\<close> passes to the generator.\<close>

definition default_args :: "string gen_args" where
  "default_args =
     \<lparr> kw_title = ''FastAPI'', kw_version = ''0.1.0'', kw_description = [],
       kw_routes = [], kw_tags = None, kw_servers = None \<rparr>"

text \<open>What \<open>titled_generator\<close> makes of them, and the application that has stored it.\<close>

definition default_schema :: dict where
  "default_schema =
     [(''title'', PStr ''FastAPI''), (''version'', PStr ''0.1.0''), (''paths'', PList [])]"

definition app_with_schema :: "string FastAPI" where
  "app_with_schema =
     after (get_openapi titled_generator (init no_arguments) None None None None None None)"

text \<open>A generator whose document is always the empty mapping, and an application after it.\<close>

definition always_empty :: "string generator" where
  "always_empty a = Inr []"

definition app_always_empty :: "string FastAPI" where
  "app_always_empty =
     after (get_openapi always_empty (init no_arguments) None None None None None None)"

text \<open>The values that the object itself has for the six arguments of the generator.\<close>

definition stored_args :: "'r FastAPI \<Rightarrow> 'r gen_args" where
  "stored_args self =
     \<lparr> kw_title = title self, kw_version = version self, kw_description = description self,
       kw_routes = routes self, kw_tags = openapi_tags self, kw_servers = servers self \<rparr>"

section \<open>Objects and references\<close>

text \<open>
  Lines 51, 62 to 65 and 67 have the form \<open>self.x = x or []\<close>. Which object the field
  then refers to is a matter of references: the argument's own object when that is true,
  and otherwise the object that evaluating the display \<open>[]\<close> or \<open>{}\<close> creates. The heap
  is the list of the objects created so far, an address is an index into it, and a new
  object goes to the end, so its address is one that no object had before.
\<close>

type_synonym addr = nat

datatype 'r obj =
    Routes "'r list"
  | Entries "middleware_entry pyseq"
  | Handlers "(pyval \<times> pyval) list"
  | Values "pyval pyseq"

type_synonym 'r heap = "'r obj list"

definition obj_at :: "'r heap \<Rightarrow> addr \<Rightarrow> 'r obj option" where
  "obj_at h p = (if p < length h then Some (h ! p) else None)"

definition new_obj :: "'r heap \<Rightarrow> 'r obj \<Rightarrow> 'r heap \<times> addr" where
  "new_obj h ob = (h @ [ob], length h)"

fun obj_truthy :: "'r obj \<Rightarrow> bool" where
  "obj_truthy (Routes xs) = truthy xs"
| "obj_truthy (Entries s) = truthy_seq (Some s)"
| "obj_truthy (Handlers xs) = truthy xs"
| "obj_truthy (Values s) = truthy_seq (Some s)"

text \<open>
  \<open>x or display\<close> on references: \<open>x\<close> is \<open>None\<close> or the address of an object. (An address
  outside the heap names no object; no Python value is one, and the function then takes
  the second operand.)
\<close>

fun or_new :: "'r heap \<Rightarrow> addr option \<Rightarrow> 'r obj \<Rightarrow> 'r heap \<times> addr" where
  "or_new h None display = new_obj h display"
| "or_new h (Some p) display =
     (case obj_at h p of
        Some ob \<Rightarrow> if obj_truthy ob then (h, p) else new_obj h display
      | None \<Rightarrow> new_obj h display)"

text \<open>The six collection arguments of \<open>__init__\<close>, as references.\<close>

record ref_args =
  ref_routes :: "addr option"
  ref_middleware :: "addr option"
  ref_exception_handlers :: "addr option"
  ref_on_startup :: "addr option"
  ref_on_shutdown :: "addr option"
  ref_dependencies :: "addr option"

text \<open>The objects that the six fields refer to after \<open>__init__\<close>.\<close>

record collection_refs =
  routes_at :: addr
  middleware_at :: addr
  exception_handlers_at :: addr
  on_startup_at :: addr
  on_shutdown_at :: addr
  dependencies_at :: addr

text \<open>Lines 51, 62, 63, 64, 65 and 67, in this order, on references.\<close>

definition init_refs :: "'r heap \<Rightarrow> ref_args \<Rightarrow> 'r heap \<times> collection_refs" where
  "init_refs h a =
     (let (h1, r) = or_new h (ref_routes a) (Routes []);
          (h2, m) = or_new h1 (ref_middleware a) (Entries (PyList []));
          (h3, e) = or_new h2 (ref_exception_handlers a) (Handlers []);
          (h4, u) = or_new h3 (ref_on_startup a) (Values (PyList []));
          (h5, d) = or_new h4 (ref_on_shutdown a) (Values (PyList []));
          (h6, p) = or_new h5 (ref_dependencies a) (Values (PyList []))
      in (h6, \<lparr> routes_at = r, middleware_at = m, exception_handlers_at = e,
                on_startup_at = u, on_shutdown_at = d, dependencies_at = p \<rparr>))"

text \<open>\<open>FastAPI()\<close>: all six omitted.\<close>

definition no_refs :: ref_args where
  "no_refs = \<lparr> ref_routes = None, ref_middleware = None, ref_exception_handlers = None,
               ref_on_startup = None, ref_on_shutdown = None, ref_dependencies = None \<rparr>"

definition ref_list :: "collection_refs \<Rightarrow> addr list" where
  "ref_list c = [routes_at c, middleware_at c, exception_handlers_at c, on_startup_at c,
                 on_shutdown_at c, dependencies_at c]"

text \<open>
  After a call of \<open>__init__\<close> on the heap \<open>h\<close> with result \<open>res\<close>, the given field refers to
  a fresh object equal to \<open>ob\<close>: its address was not in use in \<open>h\<close>, the object is there
  in the new heap, none of the other five fields refers to it, and every object of \<open>h\<close>
  is where and what it was.
\<close>

definition fresh_object ::
  "'r heap \<Rightarrow> 'r heap \<times> collection_refs \<Rightarrow> (collection_refs \<Rightarrow> addr) \<Rightarrow> 'r obj \<Rightarrow> bool" where
  "fresh_object h res field ob \<longleftrightarrow>
     length h \<le> field (snd res)
     \<and> obj_at (fst res) (field (snd res)) = Some ob
     \<and> count_list (ref_list (snd res)) (field (snd res)) = 1
     \<and> take (length h) (fst res) = h"

section \<open>Routes\<close>

lemma add_routes_append: "add_routes self calls = self\<lparr>routes := routes self @ map snd calls\<rparr>"
  by (induction self calls rule: add_routes.induct) (simp_all add: add_route_def)

text \<open>
  C3. After any sequence of \<open>add_route\<close> calls the object is the initial one with the
  route arguments appended to \<open>routes\<close> in call order and every other field as it was; a
  call with another path and the same route has the same outcome, and no call raises.
\<close>

theorem add_route_sequence:
  "add_routes self calls = self\<lparr>routes := routes self @ map snd calls\<rparr>
   \<and> add_route self path route = add_route self path' route
   \<and> fst (add_route self path route) = Inr ()"
  by (simp add: add_routes_append add_route_def)

text \<open>
  C2. \<open>include_router\<close> returns without raising and leaves the object with the router's
  routes, in the router's order, appended to \<open>routes\<close> and every other field as it was;
  the outcome is the same for any two settings of the keyword options.
\<close>

theorem include_router_appends:
  "include_router self router opts = (Inr (), self\<lparr>routes := routes self @ router_routes router\<rparr>)
   \<and> include_router self router opts = include_router self router opts'"
  by (simp add: include_router_def)

section \<open>The methods without a body\<close>

text \<open>
  C7. For every object and all arguments, \<open>setup\<close>, \<open>mount\<close> and \<open>host\<close> return without
  raising and leave the object as it was.
\<close>

theorem stubs_do_nothing:
  "setup_app self = (Inr (), self)
   \<and> mount self path app name = (Inr (), self)
   \<and> host self host_name port kwargs = (Inr (), self)"
  by (simp add: setup_app_def mount_def host_def)

section \<open>Construction\<close>

text \<open>
  C6, as stated, fails: not every omitted optional collection becomes an empty one.
  After \<open>FastAPI()\<close> the fields \<open>openapi_tags\<close>, \<open>servers\<close> and \<open>swagger_ui_init_oauth\<close>
  are \<open>None\<close> (lines 56, 57 and 61 assign the argument as it is).
\<close>

theorem init_omitted_tags_counterexample:
  "openapi_tags (init (no_arguments :: string init_args)) = None
   \<and> servers (init (no_arguments :: string init_args)) = None
   \<and> swagger_ui_init_oauth (init (no_arguments :: string init_args)) = None"
  by (simp add: init_def no_arguments_def)

lemma or_new_cases:
  "(fst (or_new h x e) = h \<and> snd (or_new h x e) < length h \<and> obj_truthy (h ! snd (or_new h x e)))
   \<or> (fst (or_new h x e) = h @ [e] \<and> snd (or_new h x e) = length h)"
  by (cases x) (auto simp: obj_at_def new_obj_def split: option.splits if_splits)

lemma or_new_le: "n \<le> length h \<Longrightarrow> n \<le> length (fst (or_new h x e))"
  using or_new_cases [of h x e] by auto

lemma or_new_lt: "p < length h \<Longrightarrow> p < length (fst (or_new h x e))"
  using or_new_cases [of h x e] by auto

lemma or_new_take: "n \<le> length h \<Longrightarrow> take n (fst (or_new h x e)) = take n h"
  using or_new_cases [of h x e] by auto

lemma or_new_keeps: "p < length h \<Longrightarrow> fst (or_new h x e) ! p = h ! p"
  using or_new_cases [of h x e] by (auto simp: nth_append)

text \<open>A later step never returns an object that is false, an earlier one never a later address.\<close>

lemma or_new_avoids:
  "p < length h \<Longrightarrow> \<not> obj_truthy (h ! p) \<Longrightarrow> snd (or_new h x e) = p \<longleftrightarrow> False"
  using or_new_cases [of h x e] by auto

lemma or_new_earlier:
  "length (fst (or_new h x e)) \<le> p \<Longrightarrow> snd (or_new h x e) = p \<longleftrightarrow> False"
  using or_new_cases [of h x e] by auto

lemmas or_new_chain = new_obj_def le_SucI or_new_le or_new_lt or_new_take or_new_keeps
  or_new_avoids or_new_earlier

lemma init_refs_no_refs:
  "init_refs h no_refs =
     (h @ [Routes [], Entries (PyList []), Handlers [], Values (PyList []), Values (PyList []),
           Values (PyList [])],
      \<lparr> routes_at = length h, middleware_at = length h + 1, exception_handlers_at = length h + 2,
        on_startup_at = length h + 3, on_shutdown_at = length h + 4,
        dependencies_at = length h + 5 \<rparr>)"
  by (simp add: init_refs_def no_refs_def new_obj_def)

lemma fresh_routes:
  "fresh_object h (init_refs h (a\<lparr>ref_routes := None\<rparr>)) routes_at (Routes [])"
  by (simp add: fresh_object_def init_refs_def Let_def split_beta ref_list_def obj_at_def
        or_new_chain)

lemma fresh_middleware:
  "fresh_object h (init_refs h (a\<lparr>ref_middleware := None\<rparr>)) middleware_at (Entries (PyList []))"
  by (simp add: fresh_object_def init_refs_def Let_def split_beta ref_list_def obj_at_def
        or_new_chain)

lemma fresh_exception_handlers:
  "fresh_object h (init_refs h (a\<lparr>ref_exception_handlers := None\<rparr>)) exception_handlers_at
     (Handlers [])"
  by (simp add: fresh_object_def init_refs_def Let_def split_beta ref_list_def obj_at_def
        or_new_chain)

lemma fresh_on_startup:
  "fresh_object h (init_refs h (a\<lparr>ref_on_startup := None\<rparr>)) on_startup_at (Values (PyList []))"
  by (simp add: fresh_object_def init_refs_def Let_def split_beta ref_list_def obj_at_def
        or_new_chain)

lemma fresh_on_shutdown:
  "fresh_object h (init_refs h (a\<lparr>ref_on_shutdown := None\<rparr>)) on_shutdown_at (Values (PyList []))"
  by (simp add: fresh_object_def init_refs_def Let_def split_beta ref_list_def obj_at_def
        or_new_chain)

lemma fresh_dependencies:
  "fresh_object h (init_refs h (a\<lparr>ref_dependencies := None\<rparr>)) dependencies_at
     (Values (PyList []))"
  by (simp add: fresh_object_def init_refs_def Let_def split_beta ref_list_def obj_at_def
        or_new_chain)

lemma init_values:
  "routes (init no_arguments) = []
   \<and> middleware (init no_arguments) = PyList []
   \<and> exception_handlers (init no_arguments) = []
   \<and> on_startup (init no_arguments) = PyList []
   \<and> on_shutdown (init no_arguments) = PyList []
   \<and> dependencies (init no_arguments) = PyList []
   \<and> openapi_schema (init no_arguments) = None
   \<and> openapi_schema_cache (init no_arguments) = None
   \<and> routes (init (a\<lparr>arg_routes := None\<rparr>)) = []
   \<and> middleware (init (a\<lparr>arg_middleware := None\<rparr>)) = PyList []
   \<and> exception_handlers (init (a\<lparr>arg_exception_handlers := None\<rparr>)) = []
   \<and> on_startup (init (a\<lparr>arg_on_startup := None\<rparr>)) = PyList []
   \<and> on_shutdown (init (a\<lparr>arg_on_shutdown := None\<rparr>)) = PyList []
   \<and> dependencies (init (a\<lparr>arg_dependencies := None\<rparr>)) = PyList []
   \<and> openapi_tags (init a) = arg_openapi_tags a
   \<and> servers (init a) = arg_servers a
   \<and> swagger_ui_init_oauth (init a) = arg_swagger_ui_init_oauth a
   \<and> openapi_tags (init no_arguments) = None
   \<and> servers (init no_arguments) = None
   \<and> swagger_ui_init_oauth (init no_arguments) = None"
  by (simp add: init_def no_arguments_def)

text \<open>
  C6, amended. \<open>FastAPI()\<close> has empty \<open>routes\<close>, \<open>middleware\<close>, \<open>exception_handlers\<close>,
  \<open>on_startup\<close> and \<open>on_shutdown\<close> (and \<open>dependencies\<close>), and both schema slots \<open>None\<close>. Every
  omitted optional collection other than \<open>openapi_tags\<close>, \<open>servers\<close> and
  \<open>swagger_ui_init_oauth\<close> defaults to a fresh empty collection rather than an absent value:
  the field is empty whatever the other arguments are, and it refers to an object that did
  not exist before the call, that no other of these fields refers to, with all older
  objects untouched; with no arguments at all, the six objects are six new ones. The
  three fields \<open>openapi_tags\<close>, \<open>servers\<close> and \<open>swagger_ui_init_oauth\<close> are stored as given,
  so they are \<open>None\<close> when omitted.
\<close>

theorem init_defaults:
  "routes (init no_arguments) = []
   \<and> middleware (init no_arguments) = PyList []
   \<and> exception_handlers (init no_arguments) = []
   \<and> on_startup (init no_arguments) = PyList []
   \<and> on_shutdown (init no_arguments) = PyList []
   \<and> dependencies (init no_arguments) = PyList []
   \<and> openapi_schema (init no_arguments) = None
   \<and> openapi_schema_cache (init no_arguments) = None
   \<and> routes (init (a\<lparr>arg_routes := None\<rparr>)) = []
   \<and> middleware (init (a\<lparr>arg_middleware := None\<rparr>)) = PyList []
   \<and> exception_handlers (init (a\<lparr>arg_exception_handlers := None\<rparr>)) = []
   \<and> on_startup (init (a\<lparr>arg_on_startup := None\<rparr>)) = PyList []
   \<and> on_shutdown (init (a\<lparr>arg_on_shutdown := None\<rparr>)) = PyList []
   \<and> dependencies (init (a\<lparr>arg_dependencies := None\<rparr>)) = PyList []
   \<and> openapi_tags (init a) = arg_openapi_tags a
   \<and> servers (init a) = arg_servers a
   \<and> swagger_ui_init_oauth (init a) = arg_swagger_ui_init_oauth a
   \<and> openapi_tags (init no_arguments) = None
   \<and> servers (init no_arguments) = None
   \<and> swagger_ui_init_oauth (init no_arguments) = None
   \<and> init_refs h no_refs =
       (h @ [Routes [], Entries (PyList []), Handlers [], Values (PyList []), Values (PyList []),
             Values (PyList [])],
        \<lparr> routes_at = length h, middleware_at = length h + 1,
          exception_handlers_at = length h + 2, on_startup_at = length h + 3,
          on_shutdown_at = length h + 4, dependencies_at = length h + 5 \<rparr>)
   \<and> fresh_object h (init_refs h (r\<lparr>ref_routes := None\<rparr>)) routes_at (Routes [])
   \<and> fresh_object h (init_refs h (r\<lparr>ref_middleware := None\<rparr>)) middleware_at
       (Entries (PyList []))
   \<and> fresh_object h (init_refs h (r\<lparr>ref_exception_handlers := None\<rparr>)) exception_handlers_at
       (Handlers [])
   \<and> fresh_object h (init_refs h (r\<lparr>ref_on_startup := None\<rparr>)) on_startup_at
       (Values (PyList []))
   \<and> fresh_object h (init_refs h (r\<lparr>ref_on_shutdown := None\<rparr>)) on_shutdown_at
       (Values (PyList []))
   \<and> fresh_object h (init_refs h (r\<lparr>ref_dependencies := None\<rparr>)) dependencies_at
       (Values (PyList []))"
  using init_values [of a] init_refs_no_refs [of h] fresh_routes [of h r] fresh_middleware [of h r]
    fresh_exception_handlers [of h r] fresh_on_startup [of h r] fresh_on_shutdown [of h r]
    fresh_dependencies [of h r]
  by blast

section \<open>The schema cache\<close>

text \<open>The two branches of \<open>get_openapi\<close> and of \<open>openapi\<close>.\<close>

lemma get_openapi_hit:
  "openapi_schema_cache self = Some c \<Longrightarrow> truthy c \<Longrightarrow>
   get_openapi gen self t v d rs tg sv = \<lparr> returned = Inr c, gen_calls = [], after = self \<rparr>"
  by (simp add: get_openapi_def)

lemma get_openapi_miss:
  "\<not> truthy_opt (openapi_schema_cache self) \<Longrightarrow>
   get_openapi gen self t v d rs tg sv = generate gen self (resolved_args self t v d rs tg sv)"
  by (cases "openapi_schema_cache self") (simp_all add: get_openapi_def)

lemma generate_returned: "returned (generate gen self args) = gen args"
  by (simp add: generate_def split: sum.split)

lemma generate_calls: "gen_calls (generate gen self args) = [args]"
  by (simp add: generate_def split: sum.split)

lemma openapi_hit:
  "openapi_schema self = Some c \<Longrightarrow> truthy c \<Longrightarrow>
   openapi gen self = \<lparr> returned = Inr c, gen_calls = [], after = self \<rparr>"
  by (simp add: openapi_def)

lemma openapi_miss:
  "\<not> truthy_opt (openapi_schema self) \<Longrightarrow> openapi gen self = fetch gen self"
  by (cases "openapi_schema self") (simp_all add: openapi_def)

lemma fetch_miss:
  "\<not> truthy_opt (openapi_schema_cache self) \<Longrightarrow>
   fetch gen self = generate gen self (resolved_args self None None None None None None)"
  by (cases "gen (resolved_args self None None None None None None)")
     (simp_all add: fetch_def get_openapi_miss generate_def)

subsection \<open>The two slots\<close>

lemma state_after_slots:
  "openapi_schema self = openapi_schema_cache self \<Longrightarrow>
   openapi_schema (state_after gen self c) = openapi_schema_cache (state_after gen self c)"
  by (cases c)
     (auto simp: add_middleware_def add_route_def include_router_def setup_app_def mount_def
        host_def openapi_def fetch_def get_openapi_def generate_def Let_def
        split: option.splits sum.splits if_splits pyseq.splits)

lemma run_slots:
  "openapi_schema self = openapi_schema_cache self \<Longrightarrow>
   openapi_schema (run gen self cs) = openapi_schema_cache (run gen self cs)"
  by (induction cs arbitrary: self) (simp_all add: state_after_slots)

text \<open>
  C8. After construction with any arguments and after any sequence of calls of the public
  methods, with any generator, the two slots \<open>openapi_schema\<close> and \<open>_openapi_schema_cache\<close>
  have the same content: both unset, or both the same schema document.
\<close>

theorem cache_slots_agree:
  "openapi_schema (run gen (init a) cs) = openapi_schema_cache (run gen (init a) cs)"
  by (rule run_slots) (simp add: init_def)

subsection \<open>A schema that is true stays\<close>

lemma state_after_holds:
  "holds_schema self c \<Longrightarrow> truthy c \<Longrightarrow> holds_schema (state_after gen self k) c"
  by (cases k)
     (auto simp: holds_schema_def add_middleware_def add_route_def include_router_def
        setup_app_def mount_def host_def openapi_hit get_openapi_hit
        split: pyseq.splits)

lemma run_holds:
  "holds_schema self c \<Longrightarrow> truthy c \<Longrightarrow> holds_schema (run gen self cs) c"
  by (induction cs arbitrary: self) (simp_all add: state_after_holds)

lemma app_with_schema_holds: "holds_schema app_with_schema default_schema"
  by (simp add: app_with_schema_def default_schema_def holds_schema_def get_openapi_def
        generate_def resolved_args_def init_def no_arguments_def titled_generator_def or_opt_def)

text \<open>
  C1, as stated, fails. With a generator whose document for the default title is the empty
  mapping, \<open>FastAPI().get_openapi()\<close> returns \<open>{}\<close> and stores it in both slots; the next
  call, \<open>get_openapi(title="B")\<close>, does not return the stored \<open>{}\<close> but a document made
  for the override.
\<close>

theorem cached_empty_schema_counterexample:
  "returned (get_openapi empty_unless_B (init no_arguments) None None None None None None) = Inr []
   \<and> holds_schema app_with_empty_schema []
   \<and> returned (get_openapi empty_unless_B app_with_empty_schema (Some ''B'') None None None None None)
       = Inr [(''title'', PStr ''B'')]
   \<and> returned (get_openapi empty_unless_B app_with_empty_schema (Some ''B'') None None None None None)
       \<noteq> Inr []"
  by (simp add: app_with_empty_schema_def holds_schema_def get_openapi_def generate_def
        resolved_args_def init_def no_arguments_def empty_unless_B_def)

text \<open>
  C1, amended. For every object in which a non-empty schema \<open>c\<close> has been computed and
  cached, and after every sequence \<open>cs\<close> of later calls (of \<open>add_route\<close>, \<open>include_router\<close>,
  \<open>add_middleware\<close>, \<open>get_openapi\<close> with any overrides, \<open>openapi\<close> and the three methods
  without a body): \<open>c\<close> is still held, \<open>get_openapi\<close> with any overrides returns \<open>c\<close>
  without calling the generator and without changing the object, and so does \<open>openapi\<close>.
\<close>

theorem cached_schema_sticks:
  assumes "holds_schema self c" and "truthy c"
  shows "holds_schema (run gen self cs) c
    \<and> get_openapi gen (run gen self cs) t v d rs tg sv
        = \<lparr> returned = Inr c, gen_calls = [], after = run gen self cs \<rparr>
    \<and> openapi gen (run gen self cs)
        = \<lparr> returned = Inr c, gen_calls = [], after = run gen self cs \<rparr>"
proof -
  have h: "holds_schema (run gen self cs) c"
    using assms by (rule run_holds)
  then show ?thesis
    using assms(2) by (simp add: holds_schema_def get_openapi_hit openapi_hit)
qed

theorem cached_schema_sticks_witness:
  "holds_schema app_with_schema default_schema \<and> truthy default_schema
   \<and> get_openapi titled_generator
        (run titled_generator app_with_schema
           [AddRoute ''/items'' ''items'', AddMiddleware (PObj ''GZipMiddleware'') [], Openapi])
        (Some ''Y'') None None None None None
      = \<lparr> returned = Inr default_schema, gen_calls = [],
          after = run titled_generator app_with_schema
            [AddRoute ''/items'' ''items'', AddMiddleware (PObj ''GZipMiddleware'') [], Openapi] \<rparr>"
proof -
  have t: "truthy default_schema"
    by (simp add: default_schema_def)
  show ?thesis
    using cached_schema_sticks [OF app_with_schema_holds t] app_with_schema_holds t by blast
qed

subsection \<open>A schema that is false does not\<close>

lemma get_openapi_returned_empty:
  "returned (get_openapi gen self t v d rs tg sv) = Inr [] \<Longrightarrow>
   holds_schema (after (get_openapi gen self t v d rs tg sv)) []"
  by (auto simp: get_openapi_def generate_def holds_schema_def
        split: option.splits sum.splits if_splits)

lemma openapi_returned_empty:
  "returned (openapi gen self) = Inr [] \<Longrightarrow> holds_schema (after (openapi gen self)) []"
  by (auto simp: openapi_def fetch_def Let_def get_openapi_def generate_def holds_schema_def
        split: option.splits sum.splits if_splits)

lemma empty_get_openapi:
  "holds_schema self [] \<Longrightarrow>
   get_openapi gen self t v d rs tg sv = generate gen self (resolved_args self t v d rs tg sv)"
  by (simp add: holds_schema_def get_openapi_miss)

lemma empty_openapi:
  "holds_schema self [] \<Longrightarrow>
   openapi gen self = generate gen self (resolved_args self None None None None None None)"
  by (simp add: holds_schema_def openapi_miss fetch_miss)

lemma mutations_keep_slots:
  "holds_schema self c \<Longrightarrow>
   holds_schema (snd (add_route self path route)) c
   \<and> holds_schema (snd (include_router self router opts)) c
   \<and> holds_schema (snd (add_middleware self cls options)) c"
  by (auto simp: holds_schema_def add_route_def include_router_def add_middleware_def
        split: pyseq.splits)

lemma state_after_keeps_empty:
  "\<forall>a. gen a = Inr [] \<Longrightarrow> holds_schema self [] \<Longrightarrow> holds_schema (state_after gen self k) []"
  by (cases k)
     (auto simp: empty_get_openapi empty_openapi generate_def holds_schema_def add_middleware_def
        add_route_def include_router_def setup_app_def mount_def host_def
        split: pyseq.splits)

lemma run_keeps_empty:
  "\<forall>a. gen a = Inr [] \<Longrightarrow> holds_schema self [] \<Longrightarrow> holds_schema (run gen self cs) []"
  by (induction cs arbitrary: self) (simp_all add: state_after_keeps_empty)

lemma app_always_empty_holds: "holds_schema app_always_empty []"
  by (simp add: app_always_empty_def holds_schema_def get_openapi_def generate_def
        always_empty_def init_def)

text \<open>
  C9. When a call of \<open>get_openapi\<close> or of \<open>openapi\<close> returns the empty mapping, the generator
  has returned it and both slots hold it. In every object whose slots hold the empty
  mapping, \<open>get_openapi\<close> calls the generator, once, with the arguments of this call, and
  returns what the generator returns (or raises what it raises), and \<open>openapi\<close> does the same
  with the stored values; \<open>add_route\<close>, \<open>include_router\<close> and \<open>add_middleware\<close> leave the
  slots as they are. With a generator that always returns the empty mapping, this is so
  after every sequence of later calls: each request calls the generator again.
\<close>

theorem empty_schema_regenerated:
  "(returned (get_openapi gen self0 t0 v0 d0 rs0 tg0 sv0) = Inr [] \<longrightarrow>
      holds_schema (after (get_openapi gen self0 t0 v0 d0 rs0 tg0 sv0)) [])
   \<and> (returned (openapi gen self0) = Inr [] \<longrightarrow> holds_schema (after (openapi gen self0)) [])
   \<and> (holds_schema self [] \<longrightarrow>
        gen_calls (get_openapi gen self t v d rs tg sv) = [resolved_args self t v d rs tg sv]
      \<and> returned (get_openapi gen self t v d rs tg sv) = gen (resolved_args self t v d rs tg sv)
      \<and> gen_calls (openapi gen self) = [resolved_args self None None None None None None]
      \<and> returned (openapi gen self) = gen (resolved_args self None None None None None None)
      \<and> holds_schema (snd (add_route self path route)) []
      \<and> holds_schema (snd (include_router self router opts)) []
      \<and> holds_schema (snd (add_middleware self cls options)) [])
   \<and> ((\<forall>a. gen a = Inr []) \<and> holds_schema self [] \<longrightarrow>
        gen_calls (get_openapi gen (run gen self cs) t v d rs tg sv)
          = [resolved_args (run gen self cs) t v d rs tg sv]
      \<and> gen_calls (openapi gen (run gen self cs))
          = [resolved_args (run gen self cs) None None None None None None])"
  using get_openapi_returned_empty [of gen self0 t0 v0 d0 rs0 tg0 sv0]
    openapi_returned_empty [of gen self0]
    mutations_keep_slots [of self "[]" path route router opts cls options]
    run_keeps_empty [of gen self cs]
  by (simp add: empty_get_openapi empty_openapi generate_calls generate_returned)

theorem empty_schema_regenerated_witness:
  "returned (get_openapi always_empty (init no_arguments) None None None None None None) = Inr []
   \<and> holds_schema app_always_empty []
   \<and> (\<forall>a. always_empty a = Inr [])
   \<and> gen_calls (get_openapi always_empty app_always_empty (Some ''T'') None None None None None)
       = [default_args\<lparr>kw_title := ''T''\<rparr>]
   \<and> gen_calls (openapi always_empty app_always_empty) = [default_args]
   \<and> gen_calls (openapi always_empty
        (run always_empty app_always_empty [Openapi, AddRoute ''/items'' ''items'', Openapi]))
       = [default_args\<lparr>kw_routes := [''items'']\<rparr>]"
proof -
  have e: "\<forall>a. always_empty a = Inr []"
    by (simp add: always_empty_def)
  have r: "returned (get_openapi always_empty (init no_arguments) None None None None None None)
      = Inr []"
    by (simp add: get_openapi_def generate_def always_empty_def init_def)
  have a: "resolved_args app_always_empty (Some ''T'') None None None None None
      = default_args\<lparr>kw_title := ''T''\<rparr>"
    "resolved_args app_always_empty None None None None None None = default_args"
    by (simp_all add: app_always_empty_def get_openapi_def generate_def always_empty_def
          init_def no_arguments_def resolved_args_def default_args_def or_opt_def)
  have b: "resolved_args
      (run always_empty app_always_empty [Openapi, AddRoute ''/items'' ''items'', Openapi])
      None None None None None None = default_args\<lparr>kw_routes := [''items'']\<rparr>"
    by (simp add: app_always_empty_def get_openapi_def generate_def always_empty_def
          openapi_def fetch_def add_route_def
          init_def no_arguments_def resolved_args_def default_args_def or_opt_def)
  show ?thesis
    using empty_schema_regenerated [of always_empty "init no_arguments" None None None None None None
        app_always_empty "Some ''T''" None None None None None _ _ _ _ _ _
        "[Openapi, AddRoute ''/items'' ''items'', Openapi]"]
      app_always_empty_holds e r a b
    by simp
qed

subsection \<open>Overrides that are false\<close>

lemma resolved_args_falsy:
  "resolved_args self (Some []) v d rs tg sv = resolved_args self None v d rs tg sv"
  "resolved_args self t (Some []) d rs tg sv = resolved_args self t None d rs tg sv"
  "resolved_args self t v (Some []) rs tg sv = resolved_args self t v None rs tg sv"
  "resolved_args self t v d (Some []) tg sv = resolved_args self t v d None tg sv"
  "resolved_args self t v d rs (Some []) sv = resolved_args self t v d rs None sv"
  "resolved_args self t v d rs tg (Some []) = resolved_args self t v d rs tg None"
  by (simp_all add: resolved_args_def or_opt_def)

lemma resolved_args_absent:
  "resolved_args self None None None None None None = stored_args self"
  by (simp add: resolved_args_def stored_args_def or_opt_def)

text \<open>
  C10. For each of the six override arguments of \<open>get_openapi\<close>, a call that supplies the
  empty string or the empty list has the same outcome (value returned, calls of the
  generator, object afterwards) as the call that omits the argument, whatever the other
  five are; the argument that the generator would receive is the value stored in the
  object. When no true schema is cached, the generator is called once: with exactly the
  stored values when all six are supplied empty.
\<close>

theorem falsy_override_is_absent:
  "get_openapi gen self (Some []) v d rs tg sv = get_openapi gen self None v d rs tg sv
   \<and> get_openapi gen self t (Some []) d rs tg sv = get_openapi gen self t None d rs tg sv
   \<and> get_openapi gen self t v (Some []) rs tg sv = get_openapi gen self t v None rs tg sv
   \<and> get_openapi gen self t v d (Some []) tg sv = get_openapi gen self t v d None tg sv
   \<and> get_openapi gen self t v d rs (Some []) sv = get_openapi gen self t v d rs None sv
   \<and> get_openapi gen self t v d rs tg (Some []) = get_openapi gen self t v d rs tg None
   \<and> kw_title (resolved_args self (Some []) v d rs tg sv) = title self
   \<and> kw_version (resolved_args self t (Some []) d rs tg sv) = version self
   \<and> kw_description (resolved_args self t v (Some []) rs tg sv) = description self
   \<and> kw_routes (resolved_args self t v d (Some []) tg sv) = routes self
   \<and> kw_tags (resolved_args self t v d rs (Some []) sv) = openapi_tags self
   \<and> kw_servers (resolved_args self t v d rs tg (Some [])) = servers self
   \<and> (\<not> truthy_opt (openapi_schema_cache self) \<longrightarrow>
        gen_calls (get_openapi gen self (Some []) (Some []) (Some []) (Some []) (Some []) (Some []))
          = [stored_args self]
      \<and> gen_calls (get_openapi gen self t v d rs tg sv) = [resolved_args self t v d rs tg sv])"
proof -
  have 1: "get_openapi gen self (Some []) v d rs tg sv = get_openapi gen self None v d rs tg sv"
    and 2: "get_openapi gen self t (Some []) d rs tg sv = get_openapi gen self t None d rs tg sv"
    and 3: "get_openapi gen self t v (Some []) rs tg sv = get_openapi gen self t v None rs tg sv"
    and 4: "get_openapi gen self t v d (Some []) tg sv = get_openapi gen self t v d None tg sv"
    and 5: "get_openapi gen self t v d rs (Some []) sv = get_openapi gen self t v d rs None sv"
    and 6: "get_openapi gen self t v d rs tg (Some []) = get_openapi gen self t v d rs tg None"
    by (simp_all add: get_openapi_def resolved_args_falsy split: option.split)
  have 7: "kw_title (resolved_args self (Some []) v d rs tg sv) = title self"
    "kw_version (resolved_args self t (Some []) d rs tg sv) = version self"
    "kw_description (resolved_args self t v (Some []) rs tg sv) = description self"
    "kw_routes (resolved_args self t v d (Some []) tg sv) = routes self"
    "kw_tags (resolved_args self t v d rs (Some []) sv) = openapi_tags self"
    "kw_servers (resolved_args self t v d rs tg (Some [])) = servers self"
    by (simp_all add: resolved_args_def or_opt_def)
  have 8: "\<not> truthy_opt (openapi_schema_cache self) \<longrightarrow>
        gen_calls (get_openapi gen self (Some []) (Some []) (Some []) (Some []) (Some []) (Some []))
          = [stored_args self]
      \<and> gen_calls (get_openapi gen self t v d rs tg sv) = [resolved_args self t v d rs tg sv]"
    by (simp add: get_openapi_miss generate_calls resolved_args_falsy resolved_args_absent)
  from 1 2 3 4 5 6 7 8 show ?thesis by blast
qed

theorem falsy_override_is_absent_witness:
  "\<not> truthy_opt (openapi_schema_cache (init (no_arguments :: string init_args)))
   \<and> gen_calls (get_openapi titled_generator (init no_arguments)
        (Some []) (Some []) (Some []) (Some []) (Some []) (Some [])) = [default_args]
   \<and> stored_args (init (no_arguments :: string init_args)) = default_args
   \<and> returned (get_openapi titled_generator (init no_arguments) (Some []) None None None None None)
       = Inr default_schema"
proof -
  have c: "\<not> truthy_opt (openapi_schema_cache (init (no_arguments :: string init_args)))"
    by (simp add: init_def)
  have s: "stored_args (init (no_arguments :: string init_args)) = default_args"
    by (simp add: stored_args_def default_args_def init_def no_arguments_def)
  have r: "returned (get_openapi titled_generator (init no_arguments) None None None None None None)
       = Inr default_schema"
    by (simp add: get_openapi_def generate_def titled_generator_def resolved_args_def init_def
          no_arguments_def default_schema_def or_opt_def)
  show ?thesis
    using falsy_override_is_absent [of titled_generator "init no_arguments" None None None None None
        None] c s r
    by simp
qed

end
